theory Spec2Isabelle
  imports Complex_Main "HOL-Library.Multiset" "HOL-Library.Sublist"
begin

section \<open>Strings of the subtitle translator\<close>

text \<open>
  Python strings are sequences of code points. This development models them as HOL
  strings, that is, with the code points below 256; every statement below is about
  documents, cue texts and backend responses over that range. In that range the
  characters for which \<^verbatim>\<open>str.isspace\<close> holds (they are the ones \<^verbatim>\<open>\s\<close> matches and
  \<^verbatim>\<open>str.strip()\<close> removes) are 9..13, 28..31, 32, 133 and 160, and the characters
  \<^verbatim>\<open>\d\<close> matches are the ten ASCII digits.
\<close>

definition nl :: char where
  "nl = CHR 0x0A"

definition is_space :: "char \<Rightarrow> bool" where
  "is_space c = (c \<in> set [CHR 0x09, CHR 0x0A, CHR 0x0B, CHR 0x0C, CHR 0x0D,
                            CHR 0x1C, CHR 0x1D, CHR 0x1E, CHR 0x1F, CHR 0x20,
                            CHR 0x85, CHR 0xA0])"

definition is_digit :: "char \<Rightarrow> bool" where
  "is_digit c = (c \<in> set ''0123456789'')"

text \<open>\<^verbatim>\<open>str.strip()\<close> with no argument.\<close>

definition strip :: "string \<Rightarrow> string" where
  "strip s = rev (dropWhile is_space (rev (dropWhile is_space s)))"

text \<open>\<^verbatim>\<open>s.replace('.', ',')\<close> and the like, for a one-character pattern.\<close>

definition replace_char :: "char \<Rightarrow> char \<Rightarrow> string \<Rightarrow> string" where
  "replace_char old new s = map (\<lambda>c. if c = old then new else c) s"

text \<open>\<^verbatim>\<open>str(n)\<close> and \<^verbatim>\<open>int(s)\<close> in base ten.\<close>

definition digit_char :: "nat \<Rightarrow> char" where
  "digit_char d = ''0123456789'' ! d"

definition digit_val :: "char \<Rightarrow> nat" where
  "digit_val c = of_char c - 48"

fun str_nat :: "nat \<Rightarrow> string" where
  "str_nat n = (if n < 10 then [digit_char n] else str_nat (n div 10) @ [digit_char (n mod 10)])"

declare str_nat.simps [simp del]

definition str_int :: "int \<Rightarrow> string" where
  "str_int i = (if i < 0 then CHR ''-'' # str_nat (nat (- i)) else str_nat (nat i))"

text \<open>\<^verbatim>\<open>int(s)\<close> on a non-empty run of digits, the only strings the code passes to it.\<close>

definition int_of_digits :: "string \<Rightarrow> int" where
  "int_of_digits s = int (foldl (\<lambda>a c. 10 * a + digit_val c) 0 s)"

text \<open>Truthiness of an \<^verbatim>\<open>Optional[str]\<close>, and \<^verbatim>\<open>a or b\<close> on it.\<close>

definition truthy :: "string option \<Rightarrow> bool" where
  "truthy v = (case v of None \<Rightarrow> False | Some s \<Rightarrow> s \<noteq> [])"

definition py_or :: "string option \<Rightarrow> string \<Rightarrow> string" where
  "py_or a b = (case a of None \<Rightarrow> b | Some s \<Rightarrow> if s \<noteq> [] then s else b)"

section \<open>The cue model\<close>

record SubtitleBlock =
  index :: int
  start_time :: string
  end_time :: string
  "text" :: string
  translated_text :: "string option"

section \<open>The regular expressions of the source\<close>

text \<open>
  The source parses with \<^verbatim>\<open>re.finditer\<close>, \<^verbatim>\<open>re.findall\<close> and \<^verbatim>\<open>re.sub\<close>. Every
  quantifier of its patterns applies to one character class, and the only alternation
  is inside a lookahead, so a pattern is a list of items: quantified classes (greedy or
  lazy), anchors, group brackets and a lookahead over alternatives. The matcher below is
  the backtracking search of \<^verbatim>\<open>re\<close>: a greedy quantifier tries the longest run first, a
  lazy one the shortest, and the first success in that order is the match.
\<close>

datatype cclass = Digit | Space | Any | NotNL | Ch char | OneOf "char list"

fun in_class :: "cclass \<Rightarrow> char \<Rightarrow> bool" where
  "in_class Digit c = is_digit c"
| "in_class Space c = is_space c"
| "in_class Any c = True"
| "in_class NotNL c = (c \<noteq> nl)"
| "in_class (Ch x) c = (c = x)"
| "in_class (OneOf xs) c = (c \<in> set xs)"

text \<open>
  \<open>Rep c lo hi greedy\<close> is the class \<open>c\<close> repeated at least \<open>lo\<close> and at most \<open>hi\<close>
  times; \<open>Bol\<close> is \<^verbatim>\<open>^\<close> under \<^verbatim>\<open>(?m)\<close>; \<open>Eos\<close> is \<^verbatim>\<open>\Z\<close>.
\<close>

datatype atom = Rep cclass nat "nat option" bool | Bol | Eos

datatype item = A atom | Open nat | Close nat | Ahead "atom list list"

text \<open>A position is the character before it, if any, and the input still to read.\<close>

type_synonym pos = "char option \<times> string"

fun under :: "nat option \<Rightarrow> nat \<Rightarrow> bool" where
  "under None n = True"
| "under (Some h) n = (n < h)"

fun rep_greedy :: "cclass \<Rightarrow> nat \<Rightarrow> nat option \<Rightarrow> (pos \<Rightarrow> 'r option) \<Rightarrow> nat \<Rightarrow> pos \<Rightarrow> 'r option" where
  "rep_greedy c lo hi k n (p, []) = (if lo \<le> n then k (p, []) else None)"
| "rep_greedy c lo hi k n (p, x # xs) =
     (if in_class c x \<and> under hi n
      then (case rep_greedy c lo hi k (Suc n) (Some x, xs) of
              Some r \<Rightarrow> Some r
            | None \<Rightarrow> if lo \<le> n then k (p, x # xs) else None)
      else if lo \<le> n then k (p, x # xs) else None)"

fun rep_lazy :: "cclass \<Rightarrow> nat \<Rightarrow> nat option \<Rightarrow> (pos \<Rightarrow> 'r option) \<Rightarrow> nat \<Rightarrow> pos \<Rightarrow> 'r option" where
  "rep_lazy c lo hi k n (p, []) = (if lo \<le> n then k (p, []) else None)"
| "rep_lazy c lo hi k n (p, x # xs) =
     (case (if lo \<le> n then k (p, x # xs) else None) of
        Some r \<Rightarrow> Some r
      | None \<Rightarrow> if in_class c x \<and> under hi n
                then rep_lazy c lo hi k (Suc n) (Some x, xs) else None)"

fun step :: "atom \<Rightarrow> (pos \<Rightarrow> 'r option) \<Rightarrow> pos \<Rightarrow> 'r option" where
  "step (Rep c lo hi greedy) k st =
     (if greedy then rep_greedy c lo hi k 0 st else rep_lazy c lo hi k 0 st)"
| "step Bol k (p, s) = (if p = None \<or> p = Some nl then k (p, s) else None)"
| "step Eos k (p, s) = (if s = [] then k (p, s) else None)"

primrec run_atoms :: "atom list \<Rightarrow> (pos \<Rightarrow> 'r option) \<Rightarrow> pos \<Rightarrow> 'r option" where
  "run_atoms [] k = k"
| "run_atoms (a # as) k = step a (run_atoms as k)"

text \<open>A lookahead holds where one of its alternatives matches; it consumes nothing.\<close>

definition look :: "atom list list \<Rightarrow> pos \<Rightarrow> bool" where
  "look alts st = list_ex (\<lambda>alt. run_atoms alt (\<lambda>_. Some ()) st \<noteq> None) alts"

text \<open>
  A match in progress: the position, where each open group started, and the text of
  each closed group.
\<close>

record match_state =
  here :: pos
  opened :: "nat \<rightharpoonup> string"
  groups :: "nat \<rightharpoonup> string"

definition consumed :: "string \<Rightarrow> string \<Rightarrow> string" where
  "consumed start now = take (length start - length now) start"

primrec run :: "item list \<Rightarrow> (match_state \<Rightarrow> 'r option) \<Rightarrow> match_state \<Rightarrow> 'r option" where
  "run [] k = k"
| "run (i # items) k =
     (case i of
        A a \<Rightarrow> (\<lambda>m. step a (\<lambda>st. run items k (m\<lparr>here := st\<rparr>)) (here m))
      | Open g \<Rightarrow> (\<lambda>m. run items k (m\<lparr>opened := (opened m)(g \<mapsto> snd (here m))\<rparr>))
      | Close g \<Rightarrow> (\<lambda>m. case opened m g of
                            None \<Rightarrow> None
                          | Some start \<Rightarrow>
                              run items k (m\<lparr>groups := (groups m)(g \<mapsto> consumed start (snd (here m)))\<rparr>))
      | Ahead alts \<Rightarrow> (\<lambda>m. if look alts (here m) then run items k m else None))"

definition match_at :: "item list \<Rightarrow> pos \<Rightarrow> match_state option" where
  "match_at pat st = run pat Some \<lparr>here = st, opened = Map.empty, groups = Map.empty\<rparr>"

text \<open>\<^verbatim>\<open>match.group(g)\<close>; every group of the source's patterns takes part in every match.\<close>

definition group :: "match_state \<Rightarrow> nat \<Rightarrow> string" where
  "group m g = (case groups m g of None \<Rightarrow> [] | Some s \<Rightarrow> s)"

text \<open>
  \<^verbatim>\<open>re.finditer\<close>: the leftmost match, then the leftmost match from where it ended. The
  counter \<open>skip\<close> is the number of characters of the last match still to pass. Neither
  pattern of the source matches the empty string; after an empty match the search moves
  on by one character.
\<close>

fun finditer_from :: "item list \<Rightarrow> nat \<Rightarrow> char option \<Rightarrow> string \<Rightarrow> match_state list" where
  "finditer_from pat skip p [] =
     (if skip = 0 then (case match_at pat (p, []) of None \<Rightarrow> [] | Some m \<Rightarrow> [m]) else [])"
| "finditer_from pat skip p (x # xs) =
     (if 0 < skip then finditer_from pat (skip - 1) (Some x) xs
      else case match_at pat (p, x # xs) of
             None \<Rightarrow> finditer_from pat 0 (Some x) xs
           | Some m \<Rightarrow>
               m # finditer_from pat (length (x # xs) - length (snd (here m)) - 1) (Some x) xs)"

definition finditer :: "item list \<Rightarrow> string \<Rightarrow> match_state list" where
  "finditer pat s = finditer_from pat 0 None s"

text \<open>\<^verbatim>\<open>re.sub(pattern, repl, s)\<close> for a replacement without group references.\<close>

fun sub_from :: "item list \<Rightarrow> string \<Rightarrow> nat \<Rightarrow> char option \<Rightarrow> string \<Rightarrow> string" where
  "sub_from pat repl skip p [] =
     (if skip = 0 then (case match_at pat (p, []) of None \<Rightarrow> [] | Some m \<Rightarrow> repl) else [])"
| "sub_from pat repl skip p (x # xs) =
     (if 0 < skip then sub_from pat repl (skip - 1) (Some x) xs
      else case match_at pat (p, x # xs) of
             None \<Rightarrow> x # sub_from pat repl 0 (Some x) xs
           | Some m \<Rightarrow>
               (let n = length (x # xs) - length (snd (here m))
                in if n = 0 then repl @ x # sub_from pat repl 0 (Some x) xs
                   else repl @ sub_from pat repl (n - 1) (Some x) xs))"

definition re_sub :: "item list \<Rightarrow> string \<Rightarrow> string \<Rightarrow> string" where
  "re_sub pat repl s = sub_from pat repl 0 None s"

text \<open>Shorthands for the quantifiers the patterns use.\<close>

definition lit :: "char \<Rightarrow> atom" where
  "lit c = Rep (Ch c) 1 (Some 1) True"

definition star :: "cclass \<Rightarrow> atom" where
  "star c = Rep c 0 None True"

definition plus :: "cclass \<Rightarrow> atom" where
  "plus c = Rep c 1 None True"

definition lazy_star :: "cclass \<Rightarrow> atom" where
  "lazy_star c = Rep c 0 None False"

definition exactly :: "nat \<Rightarrow> cclass \<Rightarrow> atom" where
  "exactly n c = Rep c n (Some n) True"

definition at_least :: "nat \<Rightarrow> cclass \<Rightarrow> atom" where
  "at_least n c = Rep c n None True"

section \<open>The format reader\<close>

text \<open>\<^verbatim>\<open>\d{2}:\d{2}:\d{2}[,\.]\d{3}\<close>\<close>

definition time_items :: "item list" where
  "time_items = map A [exactly 2 Digit, lit CHR '':'', exactly 2 Digit, lit CHR '':'',
                       exactly 2 Digit, Rep (OneOf '',.'') 1 (Some 1) True, exactly 3 Digit]"

text \<open>
  The pattern of \<^verbatim>\<open>parse_srt\<close>:
  \<^verbatim>\<open>(?m)^\s*(\d+)\s*\n\<close>
  \<^verbatim>\<open>(\d{2}:\d{2}:\d{2}[,\.]\d{3})\s*-->\s*\<close>
  \<^verbatim>\<open>(\d{2}:\d{2}:\d{2}[,\.]\d{3}).*?\n\<close>
  \<^verbatim>\<open>([\s\S]*?)\<close>
  \<^verbatim>\<open>(?=\n{2,}\d+\s*\n|\Z)\<close>
\<close>

definition block_end :: "atom list list" where
  "block_end = [[at_least 2 (Ch nl), plus Digit, star Space, lit nl], [Eos]]"

definition srt_pattern :: "item list" where
  "srt_pattern =
     [A Bol, A (star Space), Open 1, A (plus Digit), Close 1, A (star Space), A (lit nl), Open 2]
     @ time_items
     @ [Close 2, A (star Space), A (lit CHR ''-''), A (lit CHR ''-''), A (lit CHR ''>''),
        A (star Space), Open 3]
     @ time_items
     @ [Close 3, A (lazy_star NotNL), A (lit nl),
        Open 4, A (lazy_star Any), Close 4,
        Ahead block_end]"

text \<open>\<^verbatim>\<open>s.replace(old, new)\<close>: the occurrences of \<open>old\<close> from the left, not overlapping.\<close>

function replace_from :: "string \<Rightarrow> string \<Rightarrow> string \<Rightarrow> string" where
  "replace_from old new [] = []"
| "replace_from old new (x # xs) =
     (if old \<noteq> [] \<and> prefix old (x # xs)
      then new @ replace_from old new (drop (length old) (x # xs))
      else x # replace_from old new xs)"
  by pat_completeness auto
termination
  by (relation "measure (\<lambda>(old, new, s). length s)") auto

definition replace_all :: "string \<Rightarrow> string \<Rightarrow> string \<Rightarrow> string" where
  "replace_all old new s =
     (if old = [] then new @ concat (map (\<lambda>c. c # new) s) else replace_from old new s)"

text \<open>\<^verbatim>\<open>content.replace('\r\n', '\n').replace('\r', '\n')\<close>\<close>

definition normalize_newlines :: "string \<Rightarrow> string" where
  "normalize_newlines content =
     replace_all [CHR 0x0D] [nl] (replace_all [CHR 0x0D, nl] [nl] content)"

text \<open>The body of the loop over the matches: a block whose text is empty is left out.\<close>

definition block_of_match :: "match_state \<Rightarrow> SubtitleBlock list" where
  "block_of_match m =
     (let idx = int_of_digits (group m 1);
          start = replace_char CHR ''.'' CHR '','' (group m 2);
          end = replace_char CHR ''.'' CHR '','' (group m 3);
          txt = strip (group m 4)
      in if txt \<noteq> []
         then [\<lparr>index = idx, start_time = start, end_time = end,
                text = txt, translated_text = None\<rparr>]
         else [])"

definition parse_content :: "string \<Rightarrow> SubtitleBlock list" where
  "parse_content content =
     concat (map block_of_match (finditer srt_pattern (normalize_newlines content)))"

text \<open>
  What opening and reading the file gave: the two \<^verbatim>\<open>except\<close> clauses of \<^verbatim>\<open>parse_srt\<close>
  tell a missing file from any other failure. The log lines of the function are its only
  other effect; the model returns them beside the cues.
\<close>

datatype read_result = File_not_found | Read_failed | Content string

datatype log_level = Info | Warning | Error

definition parse_srt :: "read_result \<Rightarrow> SubtitleBlock list \<times> log_level list" where
  "parse_srt r =
     (case r of
        File_not_found \<Rightarrow> ([], [Error])
      | Read_failed \<Rightarrow> ([], [Error])
      | Content content \<Rightarrow>
          (let subtitles = parse_content content
           in (subtitles, if length subtitles < 5 then [Info, Warning] else [Info])))"

section \<open>The format writer\<close>

text \<open>
  \<^verbatim>\<open>write_srt\<close> sorts with \<^verbatim>\<open>sorted(subtitles, key=lambda s: s.index)\<close>, a stable sort,
  and writes three lines and a blank line per cue. The model returns the text handed to
  the file; a failure of the file system itself is logged by the source and is outside
  the model.
\<close>

definition subtitles_sorted :: "SubtitleBlock list \<Rightarrow> SubtitleBlock list" where
  "subtitles_sorted subtitles = sort_key index subtitles"

definition cue_body :: "SubtitleBlock \<Rightarrow> string" where
  "cue_body s = strip (py_or (translated_text s) (text s))"

definition cue_block :: "SubtitleBlock \<Rightarrow> string" where
  "cue_block s = str_int (index s) @ [nl]
                 @ start_time s @ '' --> '' @ end_time s @ [nl]
                 @ cue_body s @ [nl, nl]"

definition write_srt :: "SubtitleBlock list \<Rightarrow> string" where
  "write_srt subtitles = concat (map cue_block (subtitles_sorted subtitles))"

section \<open>The translation backend\<close>

text \<open>
  The two prompts are fixed Persian templates around the parts kept here: the text with
  its sound tags replaced and the context (single prompt), the numbered texts and the
  first 200 characters of the context (batch prompt). A request is the user prompt and
  \<^verbatim>\<open>max_tokens\<close>; the system prompt, the temperature and \<^verbatim>\<open>top_p\<close> are constants.
\<close>

datatype prompt = Translation_prompt string string | Batch_prompt string string

record request =
  user_prompt :: prompt
  max_tokens :: nat

text \<open>
  The world of the translator: the state of the backend, and the calls made and the
  seconds slept, in order. The log lines and the progress counter \<^verbatim>\<open>translated_count\<close>,
  which feeds them only, are left out.
\<close>

datatype event = Call request | Sleep rat

record 's world =
  backend :: 's
  trace :: "event list"

text \<open>
  \<open>client\<close> is \<^verbatim>\<open>chat.completions.create\<close> followed by reading the content of the first
  choice: \<open>None\<close> when it raised or when the content was \<^verbatim>\<open>None\<close>. \<open>sound_tags\<close> is
  the dictionary of the class. \<open>labels\<close> and \<open>separator\<close> stand for three literals of the
  source whose letters lie outside the characters modelled here: the two Persian labels
  that \<^verbatim>\<open>translate_text\<close> strips from the start of an answer, in the order of the
  pattern, and the string that joins the parts of the context.
\<close>

record 's GroqTranslator =
  client :: "'s \<Rightarrow> request \<Rightarrow> string option \<times> 's"
  sound_tags :: "(string \<times> string) list"
  labels :: "string list"
  separator :: string

definition sleep :: "rat \<Rightarrow> 's world \<Rightarrow> 's world" where
  "sleep t w = w\<lparr>trace := trace w @ [Sleep t]\<rparr>"

definition call_api :: "'s GroqTranslator \<Rightarrow> request \<Rightarrow> 's world \<Rightarrow> string option \<times> 's world" where
  "call_api tr req w =
     (let (content, b) = client tr (backend w) req;
          w' = w\<lparr>backend := b, trace := trace w @ [Call req]\<rparr>
      in (if truthy content then Some (strip (the content)) else None, w'))"

definition join :: "string \<Rightarrow> string list \<Rightarrow> string" where
  "join sep xs = (case xs of [] \<Rightarrow> [] | y # ys \<Rightarrow> y @ concat (map (\<lambda>z. sep @ z) ys))"

definition replace_tags :: "(string \<times> string) list \<Rightarrow> string \<Rightarrow> string" where
  "replace_tags tags t = fold (\<lambda>(nor_tag, per_tag) s. replace_all nor_tag per_tag s) tags t"

definition create_translation_prompt :: "'s GroqTranslator \<Rightarrow> string \<Rightarrow> string \<Rightarrow> prompt" where
  "create_translation_prompt tr t context = Translation_prompt (replace_tags (sound_tags tr) t) context"

definition numbered_texts :: "string list \<Rightarrow> string" where
  "numbered_texts processed_texts =
     join [nl, nl] (map (\<lambda>(i, t). ''['' @ str_nat (i + 1) @ '']'' @ [nl] @ t)
                        (enumerate 0 processed_texts))"

definition create_batch_prompt :: "'s GroqTranslator \<Rightarrow> string list \<Rightarrow> string \<Rightarrow> prompt" where
  "create_batch_prompt tr texts context =
     Batch_prompt (numbered_texts (map (replace_tags (sound_tags tr)) texts)) (take 200 context)"

text \<open>
  \<^verbatim>\<open>re.sub(r'^(label1|label2)\s*', '', s)\<close>: without \<^verbatim>\<open>(?m)\<close> the pattern matches at the
  start of the string only, with the first label that is a prefix.
\<close>

fun strip_label :: "string list \<Rightarrow> string \<Rightarrow> string" where
  "strip_label [] s = s"
| "strip_label (l # ls) s =
     (if prefix l s then dropWhile is_space (drop (length l) s) else strip_label ls s)"

section \<open>Translating one text, with retries\<close>

text \<open>
  The loop \<^verbatim>\<open>for attempt in range(retry_count)\<close> of \<^verbatim>\<open>translate_text\<close>; when it ends
  without an answer the function returns the text it was given.
\<close>

fun retry_loop :: "'s GroqTranslator \<Rightarrow> request \<Rightarrow> int \<Rightarrow> string \<Rightarrow> nat list \<Rightarrow> 's world
                   \<Rightarrow> string \<times> 's world" where
  "retry_loop tr req retry_count t [] w = (t, w)"
| "retry_loop tr req retry_count t (attempt # rest) w =
     (let (result, w1) = call_api tr req w
      in if truthy result
         then (strip_label (labels tr) (strip (the result)), w1)
         else retry_loop tr req retry_count t rest
                (if int attempt < retry_count - 1 then sleep (2 ^ attempt) w1 else w1))"

definition translate_text :: "'s GroqTranslator \<Rightarrow> string \<Rightarrow> string \<Rightarrow> int \<Rightarrow> 's world
                              \<Rightarrow> string \<times> 's world" where
  "translate_text tr t context retry_count w =
     retry_loop tr \<lparr>user_prompt = create_translation_prompt tr t context, max_tokens = 500\<rparr>
                retry_count t [0 ..< nat retry_count] w"

section \<open>The batch orchestrator\<close>

text \<open>\<^verbatim>\<open>r'\[(\d+)\]\s*(.*?)(?=\n\s*\[\d+\]|\Z)'\<close> under \<^verbatim>\<open>re.DOTALL\<close>\<close>

definition marker_pattern :: "item list" where
  "marker_pattern =
     [A (lit CHR ''[''), Open 1, A (plus Digit), Close 1, A (lit CHR '']''), A (star Space),
      Open 2, A (lazy_star Any), Close 2,
      Ahead [[lit nl, star Space, lit CHR ''['', plus Digit, lit CHR '']''], [Eos]]]"

definition findall_markers :: "string \<Rightarrow> (string \<times> string) list" where
  "findall_markers result = map (\<lambda>m. (group m 1, group m 2)) (finditer marker_pattern result)"

text \<open>\<^verbatim>\<open>re.sub(r'\n{3,}', '\n\n', translation.strip())\<close>\<close>

definition clean_translation :: "string \<Rightarrow> string" where
  "clean_translation translation = re_sub [A (at_least 3 (Ch nl))] [nl, nl] (strip translation)"

text \<open>
  A batch is a slice of the list and holds the same objects, so an assignment to
  \<^verbatim>\<open>batch[k].translated_text\<close> is an assignment to the cue at \<open>i + k\<close> of the list. The
  state of the loops is the list of cues and the world.
\<close>

type_synonym 's run_state = "SubtitleBlock list \<times> 's world"

definition set_translation :: "nat \<Rightarrow> string \<Rightarrow> SubtitleBlock list \<Rightarrow> SubtitleBlock list" where
  "set_translation j v subs = subs[j := (subs ! j)\<lparr>translated_text := Some v\<rparr>]"

text \<open>\<^verbatim>\<open>xs[a:b]\<close> for \<open>0 \<le> a\<close> and \<open>0 \<le> b\<close>.\<close>

definition slice :: "'a list \<Rightarrow> nat \<Rightarrow> nat \<Rightarrow> 'a list" where
  "slice xs a b = take (b - a) (drop a xs)"

text \<open>
  The context: the truthy translations among the cues of \<^verbatim>\<open>subtitles[max(0, i - 3):i]\<close>,
  each cut to 50 characters (\<open>i - 3\<close> on natural numbers is \<^verbatim>\<open>max(0, i - 3)\<close>).
\<close>

definition batch_context :: "'s GroqTranslator \<Rightarrow> SubtitleBlock list \<Rightarrow> nat \<Rightarrow> string" where
  "batch_context tr subtitles i =
     (if 0 < i
      then join (separator tr)
             (map (\<lambda>s. take 50 (the (translated_text s)))
                  (filter (\<lambda>s. truthy (translated_text s)) (slice subtitles (i - 3) i)))
      else [])"

text \<open>\<^verbatim>\<open>sub.translated_text = self.translate_text(sub.text, context)\<close> for the cue at \<open>j\<close>.\<close>

definition fallback_one :: "'s GroqTranslator \<Rightarrow> string \<Rightarrow> nat \<Rightarrow> 's run_state \<Rightarrow> 's run_state" where
  "fallback_one tr context j st =
     (let (subs, w) = st;
          (v, w') = translate_text tr (text (subs ! j)) context 3 w
      in (set_translation j v subs, w'))"

text \<open>The loop over the extracted pairs; the flag is \<^verbatim>\<open>translations_applied\<close>.\<close>

definition apply_pair :: "nat \<Rightarrow> nat \<Rightarrow> string \<times> string \<Rightarrow> SubtitleBlock list \<times> bool
                          \<Rightarrow> SubtitleBlock list \<times> bool" where
  "apply_pair i batch_len pr st =
     (let (num_str, translation) = pr;
          (subs, applied) = st;
          idx_local = int_of_digits num_str - 1
      in if 0 \<le> idx_local \<and> idx_local < int batch_len
         then (set_translation (i + nat idx_local) (clean_translation translation) subs, True)
         else (subs, applied))"

definition process_batch :: "'s GroqTranslator \<Rightarrow> nat \<Rightarrow> nat \<Rightarrow> 's run_state \<Rightarrow> 's run_state" where
  "process_batch tr batch_size i st =
     (let (subs, w) = st;
          batch = [i ..< min (i + batch_size) (length subs)];
          batch_texts = map (\<lambda>j. text (subs ! j)) batch;
          context = batch_context tr subs i;
          (result, w1) = call_api tr \<lparr>user_prompt = create_batch_prompt tr batch_texts context,
                                       max_tokens = 2000\<rparr> w
      in if \<not> truthy result
         then (let (subs', w2) = fold (fallback_one tr context) batch (subs, w1)
               in (subs', sleep 1 w2))
         else (let pairs = findall_markers (the result);
                   (subs2, applied) = fold (apply_pair i (length batch)) pairs (subs, False);
                   (subs3, w3) =
                     (if \<not> applied
                      then fold (\<lambda>j s. if \<not> truthy (translated_text (fst s ! j))
                                         then fallback_one tr context j s else s)
                                batch (subs2, w1)
                      else (subs2, w1))
               in (subs3, sleep (1 / 2) w3)))"

text \<open>
  \<^verbatim>\<open>range(0, total, batch_size)\<close>: it raises \<^verbatim>\<open>ValueError\<close> for a step of zero and is
  empty for a negative one.
\<close>

datatype error = ValueError

definition batch_starts :: "nat \<Rightarrow> nat \<Rightarrow> nat list" where
  "batch_starts n batch_size =
     map (\<lambda>k. k * batch_size) [0 ..< (n + batch_size - 1) div batch_size]"

definition translate_batch :: "'s GroqTranslator \<Rightarrow> SubtitleBlock list \<Rightarrow> int \<Rightarrow> 's world
                               \<Rightarrow> error + 's run_state" where
  "translate_batch tr subtitles batch_size w =
     (if batch_size = 0 then Inl ValueError
      else if batch_size < 0 then Inr (subtitles, w)
      else Inr (fold (process_batch tr (nat batch_size))
                     (batch_starts (length subtitles) (nat batch_size)) (subtitles, w)))"

section \<open>The manager\<close>

text \<open>
  \<^verbatim>\<open>translate_file\<close>: parse, translate, write, count. The result is the text written and
  the \<^verbatim>\<open>success_count\<close> of the final summary, or \<open>None\<close> when nothing was parsed.
\<close>

definition success_count :: "SubtitleBlock list \<Rightarrow> nat" where
  "success_count translated_subtitles =
     length (filter (\<lambda>s. truthy (translated_text s)) translated_subtitles)"

definition translate_file :: "'s GroqTranslator \<Rightarrow> read_result \<Rightarrow> int \<Rightarrow> 's world
                              \<Rightarrow> error + (string \<times> nat) option \<times> 's world" where
  "translate_file tr input batch_size w =
     (let subtitles = fst (parse_srt input)
      in if subtitles = [] then Inr (None, w)
         else case translate_batch tr subtitles batch_size w of
                Inl e \<Rightarrow> Inl e
              | Inr (translated_subtitles, w') \<Rightarrow>
                  Inr (Some (write_srt translated_subtitles, success_count translated_subtitles), w'))"

section \<open>Reading a run\<close>










subsection \<open>Sample inputs\<close>

definition sample_cue :: "int \<Rightarrow> string \<Rightarrow> SubtitleBlock" where
  "sample_cue i t = \<lparr>index = i, start_time = ''00:00:01,000'', end_time = ''00:00:02,000'',
                     text = t, translated_text = None\<rparr>"






definition dotted_document :: string where
  "dotted_document = ''1'' @ [nl] @ ''00:00:01.000 --> 00:00:02.500'' @ [nl] @ ''Hei'' @ [nl]"

section \<open>Trimming\<close>

lemma strip_not_space_ends:
  "strip s = [] \<or> (\<not> is_space (hd (strip s)) \<and> \<not> is_space (last (strip s)))"
proof -
  define t where "t = dropWhile is_space s"
  define u where "u = dropWhile is_space (rev t)"
  have st: "strip s = rev u" by (simp add: strip_def t_def u_def)
  have t_hd: "t = [] \<or> \<not> is_space (hd t)" unfolding t_def by (metis hd_dropWhile)
  have u_hd: "u = [] \<or> \<not> is_space (hd u)" unfolding u_def by (metis hd_dropWhile)
  show ?thesis
  proof (cases "u = []")
    case True
    then show ?thesis by (simp add: st)
  next
    case False
    then have l: "\<not> is_space (last (rev u))" using u_hd by (simp add: last_rev)
    obtain ys where ys: "rev t = ys @ u" unfolding u_def
      by (metis takeWhile_dropWhile_id)
    then have "t = rev u @ rev ys" by (metis rev_append rev_rev_ident)
    then have "hd (rev u) = hd t" using False by simp
    moreover have "t \<noteq> []" using ys False by auto
    ultimately have "\<not> is_space (hd (rev u))" using t_hd by simp
    then show ?thesis using l by (simp add: st)
  qed
qed

lemma strip_trimmed:
  assumes "s = [] \<or> (\<not> is_space (hd s) \<and> \<not> is_space (last s))"
  shows "strip s = s"
proof (cases "s = []")
  case True
  then show ?thesis by (simp add: strip_def)
next
  case False
  then have h: "\<not> is_space (hd s)" and l: "\<not> is_space (last s)" using assms by auto
  have 1: "dropWhile is_space s = s" using h False by (cases s) auto
  have "hd (rev s) = last s" using False by (simp add: hd_rev)
  then have 2: "dropWhile is_space (rev s) = rev s"
    using l False by (simp add: dropWhile_eq_self_iff)
  show ?thesis by (simp add: strip_def 1 2)
qed

lemma strip_strip: "strip (strip s) = strip s"
  using strip_not_space_ends [of s] by (intro strip_trimmed) auto

lemma text_of_parsed:
  "s \<in> set (parse_content content) \<Longrightarrow>
     strip (text s) = text s \<and> text s \<noteq> [] \<and> translated_text s = None"
  by (auto simp: parse_content_def block_of_match_def Let_def strip_strip split: if_splits)

section \<open>The order of the written cues\<close>


section \<open>Retries of a single translation\<close>














section \<open>A backend that never answers\<close>













section \<open>An empty translation\<close>

text \<open>
  C10. For a cue whose \<^verbatim>\<open>translated_text\<close> is the empty string the writer emits the text
  of the cue (trimmed, as it trims every body), the same block as for the cue without a
  translation, and the cue does not count in \<^verbatim>\<open>success_count\<close>.
\<close>

theorem empty_translation_written_as_source:
  assumes "translated_text s = Some []"
  shows "cue_body s = strip (text s)
       \<and> cue_block s = cue_block (s\<lparr>translated_text := None\<rparr>)
       \<and> success_count (xs @ s # ys) = success_count (xs @ ys)"
  using assms by (simp add: cue_body_def cue_block_def py_or_def success_count_def truthy_def)

theorem empty_translation_written_as_source_witness:
  "translated_text ((sample_cue 1 ''Hei'')\<lparr>translated_text := Some []\<rparr>) = Some []
   \<and> cue_body ((sample_cue 1 ''Hei'')\<lparr>translated_text := Some []\<rparr>) = ''Hei''
   \<and> success_count [(sample_cue 1 ''Hei'')\<lparr>translated_text := Some []\<rparr>] = 0"
proof -
  have s: "strip ''Hei'' = ''Hei''" by (intro strip_trimmed) (simp add: is_space_def)
  show ?thesis
  using empty_translation_written_as_source [of "(sample_cue 1 ''Hei'')\<lparr>translated_text := Some []\<rparr>" "[]" "[]"] s
  by (simp add: sample_cue_def success_count_def)
qed

section \<open>A file that cannot be read\<close>

lemma parse_content_empty: "parse_content [] = []"
  by code_simp

text \<open>
  C4, as the code has it. For a missing file and for a file that cannot be read,
  \<^verbatim>\<open>parse_srt\<close> logs one error and returns the empty list of cues, the value it also
  returns for a readable file without a block (then with an info and a warning in the
  log); \<^verbatim>\<open>translate_file\<close> then returns \<^verbatim>\<open>None\<close> without calling the backend or writing.
\<close>

theorem parse_srt_unreadable_gives_no_cues: "parse_srt File_not_found = ([], [Error])
  \<and> parse_srt Read_failed = ([], [Error])
  \<and> parse_srt (Content []) = ([], [Info, Warning])
  \<and> translate_file tr File_not_found batch_size w = Inr (None, w)
  \<and> translate_file tr Read_failed batch_size w = Inr (None, w)"
  by (simp add: parse_srt_def translate_file_def parse_content_empty)

theorem parse_srt_missing_file_counterexample: "fst (parse_srt File_not_found) = fst (parse_srt (Content []))"
  by (simp add: parse_srt_def parse_content_empty)

section \<open>What the orchestrator leaves alone\<close>









section \<open>Markers of a batch response\<close>
























section \<open>Timestamps\<close>

lemma replace_char_absent: "old \<noteq> new \<Longrightarrow> old \<notin> set (replace_char old new s)"
  by (auto simp: replace_char_def)

lemma parsed_from_match:
  assumes "s \<in> set (parse_content content)"
  shows "\<exists>m \<in> set (finditer srt_pattern (normalize_newlines content)).
           index s = int_of_digits (group m 1)
         \<and> start_time s = replace_char CHR ''.'' CHR '','' (group m 2)
         \<and> end_time s = replace_char CHR ''.'' CHR '','' (group m 3)
         \<and> text s = strip (group m 4)"
  using assms
  by (auto simp: parse_content_def block_of_match_def Let_def split: if_splits)

text \<open>
  C9. For every document, each cue the reader produces has as its times the second and
  third group of a match with every \<open>.\<close> replaced by \<open>,\<close>, so no time of a cue
  contains a \<open>.\<close>; and the writer writes the two times as they are stored, around
  \<open>-->\<close>.
\<close>

theorem timestamps_read_and_written_with_comma:
  "\<forall>s \<in> set (parse_content content).
      (\<exists>m \<in> set (finditer srt_pattern (normalize_newlines content)).
           start_time s = replace_char CHR ''.'' CHR '','' (group m 2)
         \<and> end_time s = replace_char CHR ''.'' CHR '','' (group m 3))
    \<and> CHR ''.'' \<notin> set (start_time s) \<and> CHR ''.'' \<notin> set (end_time s)
    \<and> cue_block s = str_int (index s) @ [nl] @ start_time s @ '' --> '' @ end_time s @ [nl]
                      @ cue_body s @ [nl, nl]"
proof
  fix s assume s: "s \<in> set (parse_content content)"
  obtain m where m: "m \<in> set (finditer srt_pattern (normalize_newlines content))"
    "start_time s = replace_char CHR ''.'' CHR '','' (group m 2)"
    "end_time s = replace_char CHR ''.'' CHR '','' (group m 3)"
    using parsed_from_match [OF s] by blast
  have "CHR ''.'' \<notin> set (start_time s)" "CHR ''.'' \<notin> set (end_time s)"
    using m by (simp_all add: replace_char_absent)
  then show "(\<exists>m \<in> set (finditer srt_pattern (normalize_newlines content)).
           start_time s = replace_char CHR ''.'' CHR '','' (group m 2)
         \<and> end_time s = replace_char CHR ''.'' CHR '','' (group m 3))
    \<and> CHR ''.'' \<notin> set (start_time s) \<and> CHR ''.'' \<notin> set (end_time s)
    \<and> cue_block s = str_int (index s) @ [nl] @ start_time s @ '' --> '' @ end_time s @ [nl]
                      @ cue_body s @ [nl, nl]"
    using m by (auto simp: cue_block_def)
qed

lemma dotted_document_parsed:
  "parse_content dotted_document
     = [\<lparr>index = 1, start_time = ''00:00:01,000'', end_time = ''00:00:02,500'',
         text = ''Hei'', translated_text = None\<rparr>]"
  by code_simp

theorem timestamps_read_and_written_with_comma_witness:
  "parse_content dotted_document
     = [\<lparr>index = 1, start_time = ''00:00:01,000'', end_time = ''00:00:02,500'',
         text = ''Hei'', translated_text = None\<rparr>]
   \<and> CHR ''.'' \<notin> set (start_time (hd (parse_content dotted_document)))
   \<and> write_srt (parse_content dotted_document)
       = ''1'' @ [nl] @ ''00:00:01,000 --> 00:00:02,500'' @ [nl] @ ''Hei'' @ [nl, nl]"
proof -
  have w: "write_srt (parse_content dotted_document)
       = ''1'' @ [nl] @ ''00:00:01,000 --> 00:00:02,500'' @ [nl] @ ''Hei'' @ [nl, nl]"
    by code_simp
  have "hd (parse_content dotted_document) \<in> set (parse_content dotted_document)"
    by (simp add: dotted_document_parsed)
  then have "CHR ''.'' \<notin> set (start_time (hd (parse_content dotted_document)))"
    using timestamps_read_and_written_with_comma [of dotted_document] by blast
  then show ?thesis using dotted_document_parsed w by simp
qed

end
